theory Spec2Isabelle
  imports Main
begin

section \<open>Python strings\<close>

text \<open>
  A Python \<open>str\<close> is modelled as a \<open>string\<close> whose characters are the code points
  0 to 255 (ASCII and Latin-1). \<open>str.lower\<close> and \<open>str.strip\<close> are Python's on that
  range: the upper-case letters are A to Z and U+00C0 to U+00DE without the
  multiplication sign U+00D7, each 32 below its lower-case letter; the whitespace
  characters are U+0009 to U+000D, U+001C to U+0020, U+0085 and U+00A0.
\<close>

definition lower_char :: "char \<Rightarrow> char" where
  "lower_char c =
     (let n = (of_char c :: nat)
      in if (65 \<le> n \<and> n \<le> 90) \<or> (192 \<le> n \<and> n \<le> 222 \<and> n \<noteq> 215)
         then char_of (n + 32) else c)"

definition str_lower :: "string \<Rightarrow> string" where
  "str_lower s = map lower_char s"

definition isspace_char :: "char \<Rightarrow> bool" where
  "isspace_char c =
     (let n = (of_char c :: nat)
      in (9 \<le> n \<and> n \<le> 13) \<or> (28 \<le> n \<and> n \<le> 32) \<or> n = 133 \<or> n = 160)"

definition str_strip :: "string \<Rightarrow> string" where
  "str_strip s = rev (dropWhile isspace_char (rev (dropWhile isspace_char s)))"

text \<open>An f-string field \<open>{v}\<close> prints \<open>None\<close> as the four letters.\<close>

definition fmt :: "string option \<Rightarrow> string" where
  "fmt v = (case v of None \<Rightarrow> ''None'' | Some s \<Rightarrow> s)"

section \<open>Turns, the chat session and the agent\<close>

text \<open>
  A content part is an object that may or may not have an attribute \<open>text\<close>
  (\<open>hasattr\<close>); when it has one, its value is a \<open>str\<close> or \<open>None\<close>.
\<close>

datatype part = NoTextAttr | TextAttr "string option"

text \<open>A turn: \<open>role\<close> is a \<open>str\<close> or \<open>None\<close>, \<open>parts\<close> a list or \<open>None\<close>.\<close>

record turn =
  role :: "string option"
  parts :: "part list option"

record chat_session =
  model :: string
  system_instruction :: string
  history :: "turn list"

text \<open>
  The attributes of a \<open>GeminiAgent\<close>. \<open>client\<close> is \<open>None\<close> or the client handle;
  \<open>chat\<close> and \<open>model_name\<close> are \<open>None\<close> here when the attribute was never set.
\<close>

record agent =
  client :: "unit option"
  chat :: "chat_session option"
  model_name :: "string option"

section \<open>The world outside the program\<close>

text \<open>
  What one remote call does: it raises an \<open>Exception\<close> with the given message, or it
  returns a response with its \<open>text\<close> (a \<open>str\<close> or \<open>None\<close>) and the parts of the
  assistant's turn, or the user interrupts it while the request is in flight.
\<close>

datatype outcome = Raises string | Replies "string option" "part list option" | Interrupted

text \<open>
  What a call can raise: an instance of \<open>Exception\<close> with its message, or a
  \<open>KeyboardInterrupt\<close>, which is not an instance of \<open>Exception\<close>. A result \<open>Inl x\<close> of a
  call says that \<open>x\<close> leaves the call and reaches the caller, \<open>Inr v\<close> that the call
  returns \<open>v\<close>.
\<close>

datatype raised = Exception string | KeyboardInterrupt

text \<open>
  \<open>environ\<close> is \<open>os.environ\<close> once \<open>load_dotenv()\<close> has run; \<open>client_ctor\<close> is what
  \<open>genai.Client()\<close> does (\<open>Some e\<close>: it raises an exception with message \<open>e\<close>);
  \<open>remote n\<close> is the outcome of the remote call number \<open>n\<close> of the process.
\<close>

record environment =
  environ :: "string \<rightharpoonup> string"
  client_ctor :: "string option"
  remote :: "nat \<Rightarrow> outcome"

text \<open>
  The effects of the program: the strings written to standard output, one entry for
  each \<open>print\<close> and each prompt of \<open>input\<close>, and the calls it has made, in order.
\<close>

datatype call = AgentInit string | RelayCall string | NetworkSend string | HistoryPrint

record world =
  stdout :: "string list"
  calls :: "call list"

definition initial_world :: world where
  "initial_world = \<lparr>stdout = [], calls = []\<rparr>"

definition py_print :: "string \<Rightarrow> world \<Rightarrow> world" where
  "py_print s w = w\<lparr>stdout := stdout w @ [s]\<rparr>"

definition log_call :: "call \<Rightarrow> world \<Rightarrow> world" where
  "log_call c w = w\<lparr>calls := calls w @ [c]\<rparr>"

fun is_network :: "call \<Rightarrow> bool" where
  "is_network (NetworkSend p) = True"
| "is_network c = False"

definition net_calls :: "world \<Rightarrow> nat" where
  "net_calls w = length (filter is_network (calls w))"

text \<open>The turns that one remote call that returns leaves in the session.\<close>

definition user_turn :: "string \<Rightarrow> turn" where
  "user_turn prompt = \<lparr>role = Some ''user'', parts = Some [TextAttr (Some prompt)]\<rparr>"

definition model_turn :: "part list option \<Rightarrow> turn" where
  "model_turn ps = \<lparr>role = Some ''model'', parts = ps\<rparr>"

text \<open>
  Modelled from the spec: \<open>send_message\<close> of the chat object of the remote client
  library, which is not in the repository. A call that returns appends a USER turn
  holding the prompt and then the ASSISTANT turn, and gives the assistant's text; a
  call that raises or is interrupted leaves the turns as they were.
\<close>

definition chat_send_message ::
  "outcome \<Rightarrow> chat_session \<Rightarrow> string \<Rightarrow> (raised + string option) \<times> chat_session" where
  "chat_send_message out c prompt =
     (case out of
        Raises e \<Rightarrow> (Inl (Exception e), c)
      | Interrupted \<Rightarrow> (Inl KeyboardInterrupt, c)
      | Replies txt ps \<Rightarrow>
          (Inr txt, c\<lparr>history := history c @ [user_turn prompt, model_turn ps]\<rparr>))"

text \<open>
  Modelled from the spec: \<open>chats.create\<close> of the remote client library, which is not in
  the repository. It opens the session with the model name and the persona and with no
  turn; it makes no remote call.
\<close>

definition chats_create :: "string \<Rightarrow> string \<Rightarrow> chat_session" where
  "chats_create m instr = \<lparr>model = m, system_instruction = instr, history = []\<rparr>"

section \<open>GeminiAgent\<close>

definition persona :: string where
  "persona =
     ''You are a friendly and encouraging AI tutor named 'Sage'. '' @
     ''Your goal is to help users learn about climate change. '' @
     ''Keep your answers concise, educational, and positive. '' @
     ''Always try to provide educational and verified scientific information. ''"

definition init_error :: string where
  "init_error =
     ''Error initializing Gemini client. Make sure the GEMINI_API_KEY environment variable is set.''"

text \<open>
  \<open>__init__\<close>: the handler covers \<open>genai.Client()\<close>; on an exception it prints two
  lines, sets \<open>client\<close> to \<open>None\<close> and returns, leaving \<open>chat\<close> and \<open>model_name\<close> unset.
\<close>

definition GeminiAgent_init :: "environment \<Rightarrow> string \<Rightarrow> world \<Rightarrow> agent \<times> world" where
  "GeminiAgent_init env mname w0 =
     (let w = log_call (AgentInit mname) w0
      in case client_ctor env of
           Some e \<Rightarrow>
             (\<lparr>client = None, chat = None, model_name = None\<rparr>,
              py_print (''Details: '' @ e) (py_print init_error w))
         | None \<Rightarrow>
             (\<lparr>client = Some (), chat = Some (chats_create mname persona),
               model_name = Some mname\<rparr>,
              py_print (''Agent 'Sage' initialized using model: '' @ mname) w))"

definition not_initialized :: string where
  "not_initialized = ''Agent failed to initialize. Please check your API key setup.''"

definition processing_error :: string where
  "processing_error = ''An error occurred during message processing: ''"

text \<open>The message of the \<open>AttributeError\<close> raised by reading \<open>self.chat\<close> when it is unset.\<close>

definition no_chat_attribute :: string where
  "no_chat_attribute =
     CHR 0x27 # ''GeminiAgent' object has no attribute 'chat'' @ [CHR 0x27]"

text \<open>
  Lines 64 and 65, the handler of the \<open>try\<close> block of \<open>send_message\<close>: \<open>except Exception\<close>
  turns an \<open>Exception\<close> into the reply; a \<open>KeyboardInterrupt\<close> is not caught and leaves
  the method.
\<close>

fun except_Exception :: "raised + string option \<Rightarrow> raised + string option" where
  "except_Exception (Inl (Exception e)) = Inr (Some (processing_error @ e))"
| "except_Exception (Inl KeyboardInterrupt) = Inl KeyboardInterrupt"
| "except_Exception (Inr txt) = Inr txt"

text \<open>
  \<open>send_message\<close> gives \<open>Inr\<close> the reply it returns (\<open>response.text\<close> may be \<open>None\<close>) or
  \<open>Inl\<close> what it lets through to its caller, then the agent, whose chat session the
  remote call has updated, and the world. Reading \<open>self.chat\<close> when it is unset raises
  the \<open>AttributeError\<close> inside the \<open>try\<close> block.
\<close>

definition send_message ::
  "environment \<Rightarrow> agent \<Rightarrow> string \<Rightarrow> world \<Rightarrow> (raised + string option) \<times> agent \<times> world" where
  "send_message env a prompt w0 =
     (let w = log_call (RelayCall prompt) w0
      in case client a of
           None \<Rightarrow> (Inr (Some not_initialized), a, w)
         | Some u \<Rightarrow>
             (case chat a of
                None \<Rightarrow> (except_Exception (Inl (Exception no_chat_attribute)), a, w)
              | Some c \<Rightarrow>
                  (case chat_send_message (remote env (net_calls w)) c prompt of
                     (r, c') \<Rightarrow>
                       (except_Exception r, a\<lparr>chat := Some c'\<rparr>,
                        log_call (NetworkSend prompt) w))))"

definition placeholder :: string where
  "placeholder = ''[Non-Text Content]''"

text \<open>Line 72: the value bound to \<open>text\<close>, a \<open>str\<close> or \<open>None\<close>.\<close>

definition turn_text :: "turn \<Rightarrow> string option" where
  "turn_text t =
     (case parts t of
        None \<Rightarrow> Some placeholder
      | Some [] \<Rightarrow> Some placeholder
      | Some (p # ps) \<Rightarrow>
          (case p of NoTextAttr \<Rightarrow> Some placeholder | TextAttr v \<Rightarrow> v))"

text \<open>Line 73.\<close>

definition turn_label :: "turn \<Rightarrow> string" where
  "turn_label t = (if role t = Some ''user'' then ''USER'' else ''SAGE'')"

text \<open>Line 74.\<close>

definition history_line :: "turn \<Rightarrow> string" where
  "history_line t = ''['' @ turn_label t @ '']: '' @ fmt (turn_text t)"

definition history_header :: string where
  "history_header = CHR 0x0A # ''--- Conversation History ---''"

definition history_footer :: string where
  "history_footer = ''----------------------------'' @ [CHR 0x0A]"

text \<open>
  \<open>get_history\<close> returns \<open>Some e\<close> when it raises an exception with message \<open>e\<close>, which
  it does after the header when \<open>self.chat\<close> is unset, and \<open>None\<close> when it returns.
\<close>

definition get_history :: "agent \<Rightarrow> world \<Rightarrow> string option \<times> world" where
  "get_history a w0 =
     (let w = py_print history_header (log_call HistoryPrint w0)
      in case chat a of
           None \<Rightarrow> (Some no_chat_attribute, w)
         | Some c \<Rightarrow>
             (None,
              py_print history_footer
                (foldl (\<lambda>w' t. py_print (history_line t) w') w (history c))))"

section \<open>The interactive loop\<close>

datatype loop_state = RUNNING | TERMINATED

text \<open>
  What \<open>input\<close> gives: a line, a \<open>KeyboardInterrupt\<close>, or an \<open>EOFError\<close> at the end of
  standard input.
\<close>

datatype stdin_event = Line string | Interrupt | EOF

definition farewell :: string where
  "farewell = CHR 0x0A # ''Sage: Goodbye! Stay curious about our planet!''"

definition unexpected_error :: string where
  "unexpected_error = ''An unexpected error occurred: ''"

definition input_prompt :: string where
  "input_prompt = ''You: ''"

text \<open>
  One iteration of \<open>while True\<close>; \<open>TERMINATED\<close> is a \<open>break\<close>. What leaves \<open>send_message\<close>
  meets the handlers of the loop, lines 110 to 115.
\<close>

definition loop_body ::
  "environment \<Rightarrow> agent \<Rightarrow> world \<Rightarrow> stdin_event \<Rightarrow> loop_state \<times> agent \<times> world" where
  "loop_body env a w0 ev =
     (let w = py_print input_prompt w0
      in case ev of
           Interrupt \<Rightarrow> (TERMINATED, a, py_print farewell w)
         | EOF \<Rightarrow>
             (TERMINATED, a, py_print (unexpected_error @ ''EOF when reading a line'') w)
         | Line user_input \<Rightarrow>
             if str_lower user_input \<in> set [''quit'', ''exit'']
             then (TERMINATED, a, py_print farewell w)
             else if str_lower user_input = ''history''
             then (case get_history a w of
                     (Some e, w') \<Rightarrow> (TERMINATED, a, py_print (unexpected_error @ e) w')
                   | (None, w') \<Rightarrow> (RUNNING, a, w'))
             else if str_strip user_input = []
             then (RUNNING, a, w)
             else (case send_message env a user_input w of
                     (Inr response, a', w') \<Rightarrow>
                       (RUNNING, a', py_print (''Sage: '' @ fmt response) w')
                   | (Inl KeyboardInterrupt, a', w') \<Rightarrow>
                       (TERMINATED, a', py_print farewell w')
                   | (Inl (Exception e), a', w') \<Rightarrow>
                       (TERMINATED, a', py_print (unexpected_error @ e) w')))"

text \<open>The loop over the events of standard input; when they are used up, \<open>input\<close> meets the end.\<close>

fun loop :: "environment \<Rightarrow> agent \<Rightarrow> world \<Rightarrow> stdin_event list \<Rightarrow> agent \<times> world" where
  "loop env a w [] = snd (loop_body env a w EOF)"
| "loop env a w (ev # evs) =
     (case loop_body env a w ev of
        (TERMINATED, a', w') \<Rightarrow> (a', w')
      | (RUNNING, a', w') \<Rightarrow> loop env a' w' evs)"

definition default_model :: string where
  "default_model = ''gemini-2.5-flash''"

definition critical_lines :: "string list" where
  "critical_lines =
     [''CRITICAL: Please set the 'GEMINI_API_KEY' environment variable.'',
      ''You can get a key from Google AI Studio.'']"

definition banner :: "string list" where
  "banner =
     [CHR 0x0A # ''------------------------------------------------------'',
      ''Welcome! You are chatting with Sage, the Climate Tutor.'',
      ''Type 'history' to see the conversation history.'',
      ''Type 'quit' or 'exit' to end the session.'',
      ''------------------------------------------------------'' @ [CHR 0x0A]]"

definition print_all :: "string list \<Rightarrow> world \<Rightarrow> world" where
  "print_all ls w = foldl (\<lambda>w' l. py_print l w') w ls"

text \<open>
  \<open>run_agent_cli\<close> gives the world at the end and the exit status of the process, which
  is 0 when the function returns.
\<close>

definition run_agent_cli :: "environment \<Rightarrow> stdin_event list \<Rightarrow> world \<times> nat" where
  "run_agent_cli env evs =
     (if environ env ''GEMINI_API_KEY'' = None
      then (print_all critical_lines initial_world, 0)
      else (case GeminiAgent_init env default_model initial_world of
              (a, w) \<Rightarrow> (snd (loop env a (print_all banner w) evs), 0)))"

section \<open>Vocabulary of the properties\<close>

text \<open>A keyword in any letter case: each letter is the keyword's or its capital.\<close>

definition upper_letter :: "char \<Rightarrow> char" where
  "upper_letter k = char_of (of_char k - (32 :: nat))"

definition case_variant :: "string \<Rightarrow> string \<Rightarrow> bool" where
  "case_variant s kw = list_all2 (\<lambda>c k. c = k \<or> c = upper_letter k) s kw"

text \<open>A sequence of relay calls on one agent, with the result of each.\<close>

fun relay_all ::
  "environment \<Rightarrow> agent \<Rightarrow> world \<Rightarrow> string list \<Rightarrow>
     (raised + string option) list \<times> agent \<times> world" where
  "relay_all env a w [] = ([], a, w)"
| "relay_all env a w (p # ps) =
     (case send_message env a p w of
        (r, a', w') \<Rightarrow>
          (case relay_all env a' w' ps of (rs, a'', w'') \<Rightarrow> (r # rs, a'', w'')))"

fun is_reply :: "outcome \<Rightarrow> bool" where
  "is_reply (Replies txt ps) = True"
| "is_reply (Raises e) = False"
| "is_reply Interrupted = False"

text \<open>The turns that the relay calls for \<open>ps\<close> add when the remote calls are numbered from \<open>k\<close>.\<close>

fun turns_added :: "environment \<Rightarrow> nat \<Rightarrow> string list \<Rightarrow> turn list" where
  "turns_added env k [] = []"
| "turns_added env k (p # ps) =
     (case remote env k of
        Raises e \<Rightarrow> turns_added env (Suc k) ps
      | Interrupted \<Rightarrow> turns_added env (Suc k) ps
      | Replies txt cs \<Rightarrow> user_turn p # model_turn cs # turns_added env (Suc k) ps)"

definition successes :: "environment \<Rightarrow> nat \<Rightarrow> nat \<Rightarrow> nat" where
  "successes env k n = length (filter (\<lambda>i. is_reply (remote env i)) [k..<k + n])"

section \<open>Example environments and agents\<close>

text \<open>A session that works, one whose client cannot be built, one whose remote calls fail,
  one whose remote calls the user interrupts, one whose second remote call fails, one without the credential, and one whose
  assistant turns hold a part without text.\<close>

definition working_env :: environment where
  "working_env =
     \<lparr>environ = [''GEMINI_API_KEY'' \<mapsto> ''k''], client_ctor = None,
      remote = (\<lambda>n. Replies (Some ''ok'') (Some [TextAttr (Some ''ok'')]))\<rparr>"

definition degraded_env :: environment where
  "degraded_env =
     \<lparr>environ = [''GEMINI_API_KEY'' \<mapsto> ''''],
      client_ctor = Some ''Missing key inputs argument!'',
      remote = (\<lambda>n. Raises ''unreachable'')\<rparr>"

definition down_env :: environment where
  "down_env =
     \<lparr>environ = [''GEMINI_API_KEY'' \<mapsto> ''k''], client_ctor = None,
      remote = (\<lambda>n. Raises ''503 UNAVAILABLE'')\<rparr>"

definition interrupted_env :: environment where
  "interrupted_env =
     \<lparr>environ = [''GEMINI_API_KEY'' \<mapsto> ''k''], client_ctor = None,
      remote = (\<lambda>n. Interrupted)\<rparr>"

definition flaky_env :: environment where
  "flaky_env =
     \<lparr>environ = [''GEMINI_API_KEY'' \<mapsto> ''k''], client_ctor = None,
      remote = (\<lambda>n. if n = 1 then Raises ''503 UNAVAILABLE''
                     else Replies (Some ''ok'') (Some [TextAttr (Some ''ok'')]))\<rparr>"

definition no_key_env :: environment where
  "no_key_env =
     \<lparr>environ = Map.empty, client_ctor = None, remote = (\<lambda>n. Raises ''unreachable'')\<rparr>"

definition nontext_env :: environment where
  "nontext_env =
     \<lparr>environ = [''GEMINI_API_KEY'' \<mapsto> ''k''], client_ctor = None,
      remote = (\<lambda>n. Replies None (Some [TextAttr None]))\<rparr>"

definition sage :: agent where
  "sage =
     \<lparr>client = Some (), chat = Some (chats_create default_model persona),
      model_name = Some default_model\<rparr>"

definition mixed_history :: "turn list" where
  "mixed_history =
     [user_turn ''hi'', model_turn (Some [TextAttr (Some ''hello'')]),
      \<lparr>role = Some ''tool'', parts = None\<rparr>, \<lparr>role = None, parts = Some []\<rparr>,
      \<lparr>role = Some ''User'', parts = Some [NoTextAttr]\<rparr>]"

section \<open>Lower case, whitespace and the keywords\<close>

lemma isspace_lower: "isspace_char c \<Longrightarrow> lower_char c = c"
  by (auto simp: isspace_char_def lower_char_def Let_def)

lemma lower_spaces: "list_all isspace_char s \<Longrightarrow> str_lower s = s"
  by (induction s) (simp_all add: str_lower_def isspace_lower)

lemma lower_append: "str_lower (xs @ ys) = str_lower xs @ str_lower ys"
  by (simp add: str_lower_def)

lemma lower_letters:
  "lower_char CHR ''q'' = CHR ''q''" "lower_char (upper_letter CHR ''q'') = CHR ''q''"
  "lower_char CHR ''u'' = CHR ''u''" "lower_char (upper_letter CHR ''u'') = CHR ''u''"
  "lower_char CHR ''i'' = CHR ''i''" "lower_char (upper_letter CHR ''i'') = CHR ''i''"
  "lower_char CHR ''t'' = CHR ''t''" "lower_char (upper_letter CHR ''t'') = CHR ''t''"
  "lower_char CHR ''e'' = CHR ''e''" "lower_char (upper_letter CHR ''e'') = CHR ''e''"
  "lower_char CHR ''x'' = CHR ''x''" "lower_char (upper_letter CHR ''x'') = CHR ''x''"
  "lower_char CHR ''h'' = CHR ''h''" "lower_char (upper_letter CHR ''h'') = CHR ''h''"
  "lower_char CHR ''s'' = CHR ''s''" "lower_char (upper_letter CHR ''s'') = CHR ''s''"
  "lower_char CHR ''o'' = CHR ''o''" "lower_char (upper_letter CHR ''o'') = CHR ''o''"
  "lower_char CHR ''r'' = CHR ''r''" "lower_char (upper_letter CHR ''r'') = CHR ''r''"
  "lower_char CHR ''y'' = CHR ''y''" "lower_char (upper_letter CHR ''y'') = CHR ''y''"
  by code_simp+

lemma case_variant_quit: "case_variant s ''quit'' \<Longrightarrow> str_lower s = ''quit''"
  by (auto simp: case_variant_def str_lower_def list_all2_Cons2 lower_letters)

lemma case_variant_exit: "case_variant s ''exit'' \<Longrightarrow> str_lower s = ''exit''"
  by (auto simp: case_variant_def str_lower_def list_all2_Cons2 lower_letters)

lemma case_variant_history: "case_variant s ''history'' \<Longrightarrow> str_lower s = ''history''"
  by (auto simp: case_variant_def str_lower_def list_all2_Cons2 lower_letters)

lemma strip_empty: "str_strip s = [] \<longleftrightarrow> list_all isspace_char s"
proof
  assume "str_strip s = []"
  then have all: "\<forall>x\<in>set (dropWhile isspace_char s). isspace_char x"
    by (simp add: str_strip_def)
  have "dropWhile isspace_char s = []"
  proof (rule ccontr)
    assume ne: "dropWhile isspace_char s \<noteq> []"
    then have "\<not> isspace_char (hd (dropWhile isspace_char s))"
      by (rule hd_dropWhile)
    moreover have "hd (dropWhile isspace_char s) \<in> set (dropWhile isspace_char s)"
      using ne by simp
    ultimately show False using all by blast
  qed
  then show "list_all isspace_char s"
    by (simp add: list_all_iff)
next
  assume "list_all isspace_char s"
  then have "dropWhile isspace_char s = []"
    by (simp add: list_all_iff)
  then show "str_strip s = []"
    unfolding str_strip_def by (simp del: dropWhile_eq_Nil_conv)
qed

lemma keyword_chars:
  "\<not> isspace_char CHR ''q''" "\<not> isspace_char CHR ''u''" "\<not> isspace_char CHR ''i''"
  "\<not> isspace_char CHR ''t''" "\<not> isspace_char CHR ''e''" "\<not> isspace_char CHR ''x''"
  "\<not> isspace_char CHR ''h''" "\<not> isspace_char CHR ''s''" "\<not> isspace_char CHR ''o''"
  "\<not> isspace_char CHR ''r''" "\<not> isspace_char CHR ''y''"
  by (simp_all add: isspace_char_def)

lemma spaces_not_keyword:
  assumes "list_all isspace_char s"
  shows "str_lower s \<noteq> ''quit''" "str_lower s \<noteq> ''exit''" "str_lower s \<noteq> ''history''"
  using assms lower_spaces [OF assms] by (auto simp: keyword_chars)

lemma padded_not_plain:
  assumes "list_all isspace_char pre" and "list_all isspace_char post"
    and "pre @ post \<noteq> []" and "\<forall>c\<in>set x. \<not> isspace_char c"
  shows "pre @ m @ post \<noteq> x"
proof
  assume eq: "pre @ m @ post = x"
  from assms(3) obtain c where c: "c \<in> set pre \<union> set post"
    by (cases pre; cases post) auto
  with assms(1,2) have "isspace_char c"
    by (auto simp: list_all_iff)
  moreover from c eq have "c \<in> set x" by auto
  ultimately show False using assms(4) by blast
qed

section \<open>Output and calls\<close>

lemma net_calls_log_relay [simp]: "net_calls (log_call (RelayCall p) w) = net_calls w"
  by (simp add: net_calls_def log_call_def)

lemma net_calls_log_network [simp]: "net_calls (log_call (NetworkSend p) w) = Suc (net_calls w)"
  by (simp add: net_calls_def log_call_def)

lemma net_calls_print [simp]: "net_calls (py_print s w) = net_calls w"
  by (simp add: net_calls_def py_print_def)

lemma stdout_print: "stdout (py_print s w) = stdout w @ [s]"
  by (simp add: py_print_def)

lemma calls_print: "calls (py_print s w) = calls w"
  by (simp add: py_print_def)

lemma stdout_foldl_print:
  "stdout (foldl (\<lambda>w' t. py_print (f t) w') w ts) = stdout w @ map f ts"
  by (induction ts arbitrary: w) (simp_all add: stdout_print)

lemma calls_foldl_print:
  "calls (foldl (\<lambda>w' t. py_print (f t) w') w ts) = calls w"
  by (induction ts arbitrary: w) (simp_all add: calls_print)

lemmas run_defs =
  run_agent_cli_def GeminiAgent_init_def loop_body_def get_history_def send_message_def
  chat_send_message_def chats_create_def print_all_def py_print_def log_call_def
  initial_world_def net_calls_def str_lower_def str_strip_def lower_char_def isspace_char_def
  Let_def history_line_def turn_label_def turn_text_def fmt_def user_turn_def model_turn_def
  banner_def

section \<open>The relay\<close>

lemma send_message_disabled:
  "client a = None \<Longrightarrow>
   send_message env a p w = (Inr (Some not_initialized), a, log_call (RelayCall p) w)"
  by (simp add: send_message_def)

lemma relay_all_disabled:
  "client a = None \<Longrightarrow>
   relay_all env a w ps =
     (map (\<lambda>p. Inr (Some not_initialized)) ps, a, w\<lparr>calls := calls w @ map RelayCall ps\<rparr>)"
  by (induction ps arbitrary: w) (simp_all add: send_message_disabled log_call_def)

lemma send_message_calls:
  "\<exists>r a' w' rest. send_message env a p w = (r, a', w')
      \<and> calls w' = calls w @ RelayCall p # rest \<and> stdout w' = stdout w"
  by (auto simp: send_message_def chat_send_message_def log_call_def Let_def
        split: option.splits outcome.splits)

lemma send_message_no_Exception: "fst (send_message env a p w) \<noteq> Inl (Exception x)"
  by (auto simp: send_message_def chat_send_message_def Let_def
        split: option.splits outcome.splits)

lemma send_message_interrupt_only:
  "fst (send_message env a p w) = Inl KeyboardInterrupt \<Longrightarrow>
   remote env (net_calls w) = Interrupted"
  by (auto simp: send_message_def chat_send_message_def Let_def
        split: option.splits outcome.splits)

lemma send_message_enabled:
  assumes "client a = Some u" and "chat a = Some c"
  shows "\<exists>r w'. send_message env a p w =
            (r, a\<lparr>chat := Some (c\<lparr>history := history c @ turns_added env (net_calls w) [p]\<rparr>)\<rparr>, w')
          \<and> net_calls w' = Suc (net_calls w)"
  using assms
  by (cases "remote env (net_calls w)") (simp_all add: send_message_def chat_send_message_def)

lemma relay_all_history:
  assumes "client a = Some u" and "chat a = Some c"
  shows "\<exists>rs w'. relay_all env a w ps =
            (rs, a\<lparr>chat := Some (c\<lparr>history := history c @ turns_added env (net_calls w) ps\<rparr>)\<rparr>, w')"
  using assms
proof (induction ps arbitrary: a c w)
  case Nil
  then show ?case by simp
next
  case (Cons p ps)
  let ?c1 = "c\<lparr>history := history c @ turns_added env (net_calls w) [p]\<rparr>"
  let ?a1 = "a\<lparr>chat := Some ?c1\<rparr>"
  obtain r w1 where sm: "send_message env a p w = (r, ?a1, w1)"
    and n1: "net_calls w1 = Suc (net_calls w)"
    using send_message_enabled [OF Cons.prems, of env p w] by blast
  have "client ?a1 = Some u" and "chat ?a1 = Some ?c1"
    using Cons.prems by simp_all
  from Cons.IH [OF this, of w1] obtain rs w' where
    ra: "relay_all env ?a1 w1 ps =
           (rs, ?a1\<lparr>chat := Some (?c1\<lparr>history := history ?c1 @ turns_added env (net_calls w1) ps\<rparr>)\<rparr>, w')"
    by blast
  have "history ?c1 @ turns_added env (net_calls w1) ps =
        history c @ turns_added env (net_calls w) (p # ps)"
    by (cases "remote env (net_calls w)") (simp_all add: n1)
  with sm ra show ?case by simp
qed

section \<open>The history printer\<close>

lemma get_history_enabled:
  assumes "chat a = Some c"
  shows "\<exists>w'. get_history a w = (None, w')
      \<and> stdout w' = stdout w @ [history_header] @ map history_line (history c) @ [history_footer]
      \<and> calls w' = calls w @ [HistoryPrint]"
  using assms
  by (simp add: get_history_def Let_def stdout_foldl_print calls_foldl_print
        stdout_print calls_print log_call_def)

lemma history_line_prefix:
  "take 8 (history_line t) = (if role t = Some ''user'' then ''[USER]: '' else ''[SAGE]: '')"
  by (simp add: history_line_def turn_label_def)

lemma successes_Suc:
  "successes env k (Suc n) = (if is_reply (remote env k) then 1 else 0) + successes env (Suc k) n"
  by (simp add: successes_def upt_conv_Cons del: upt_Suc)

lemma successes_0 [simp]: "successes env k 0 = 0"
  by (simp add: successes_def)

lemma roles_turns_added:
  "map role (turns_added env k ps) =
     concat (replicate (successes env k (length ps)) [Some ''user'', Some ''model''])"
  by (induction ps arbitrary: k)
     (simp_all add: successes_Suc user_turn_def model_turn_def split: outcome.splits)

lemma labels_turns_added:
  "map (take 8) (map history_line (turns_added env k ps)) =
     concat (replicate (successes env k (length ps)) [''[USER]: '', ''[SAGE]: ''])"
  by (induction ps arbitrary: k)
     (simp_all add: successes_Suc user_turn_def model_turn_def history_line_prefix
        split: outcome.splits)

text \<open>
  The scenario of one question, the history and \<open>quit\<close> on a working session: one relay
  call, a history of two turns, the farewell.
\<close>

lemma end_to_end_scenario:
  "run_agent_cli working_env [Line ''What is climate change?'', Line ''history'', Line ''quit''] =
     (\<lparr>stdout = [''Agent 'Sage' initialized using model: gemini-2.5-flash''] @ banner @
         [input_prompt, ''Sage: ok'',
          input_prompt, history_header, ''[USER]: What is climate change?'', ''[SAGE]: ok'',
          history_footer,
          input_prompt, farewell],
       calls = [AgentInit default_model, RelayCall ''What is climate change?'',
                NetworkSend ''What is climate change?'', HistoryPrint]\<rparr>, 0)"
  by (simp add: run_defs working_env_def default_model_def)

section \<open>The claims\<close>

text \<open>
  Claim C1. When \<open>genai.Client()\<close> raises while the agent is built, the constructor
  returns all the same: the agent has \<open>client = None\<close>, the two diagnostic lines are
  printed, and every later sequence of relay calls on that agent returns for each prompt
  the fixed \<open>not_initialized\<close> string, leaves the agent as it is, and adds to the calls
  only the relay calls themselves, so no network call.
\<close>

theorem disabled_session_short_circuits:
  assumes "client_ctor env = Some e"
  shows "\<exists>a w1. GeminiAgent_init env m w = (a, w1)
           \<and> client a = None
           \<and> stdout w1 = stdout w @ [init_error, ''Details: '' @ e]
           \<and> (\<forall>ps w2. relay_all env a w2 ps =
                 (map (\<lambda>p. Inr (Some not_initialized)) ps, a,
                  w2\<lparr>calls := calls w2 @ map RelayCall ps\<rparr>))"
  using assms
  by (simp add: GeminiAgent_init_def relay_all_disabled py_print_def log_call_def)

theorem disabled_session_short_circuits_witness:
  "client_ctor degraded_env = Some ''Missing key inputs argument!'' \<and>
   (\<exists>a w1. GeminiAgent_init degraded_env default_model initial_world = (a, w1)
      \<and> client a = None
      \<and> stdout w1 = [init_error, ''Details: Missing key inputs argument!'']
      \<and> relay_all degraded_env a w1 [''What is climate change?'', ''Hello?''] =
          ([Inr (Some not_initialized), Inr (Some not_initialized)], a,
           w1\<lparr>calls := calls w1 @ [RelayCall ''What is climate change?'', RelayCall ''Hello?'']\<rparr>))"
proof -
  have h: "client_ctor degraded_env = Some ''Missing key inputs argument!''"
    by (simp add: degraded_env_def)
  from disabled_session_short_circuits [OF h, of default_model initial_world]
  obtain a w1 where
    i: "GeminiAgent_init degraded_env default_model initial_world = (a, w1)"
    and c: "client a = None"
    and out: "stdout w1 =
      stdout initial_world @ [init_error, ''Details: '' @ ''Missing key inputs argument!'']"
    and ra: "\<And>ps w2. relay_all degraded_env a w2 ps =
        (map (\<lambda>p. Inr (Some not_initialized)) ps, a, w2\<lparr>calls := calls w2 @ map RelayCall ps\<rparr>)"
    by blast
  have "relay_all degraded_env a w1 [''What is climate change?'', ''Hello?''] =
          ([Inr (Some not_initialized), Inr (Some not_initialized)], a,
           w1\<lparr>calls := calls w1 @ [RelayCall ''What is climate change?'', RelayCall ''Hello?'']\<rparr>)"
    unfolding ra by simp
  moreover have "stdout w1 = [init_error, ''Details: Missing key inputs argument!'']"
    using out by (simp add: initial_world_def)
  ultimately show ?thesis
    using h i c by blast
qed

text \<open>
  Claim C2, as stated, fails for the exception that is not an \<open>Exception\<close>: when the
  user interrupts the remote call, the \<open>KeyboardInterrupt\<close> is not caught by line 64 and
  leaves \<open>send_message\<close>; it is the handler of the loop, line 110, that takes it, prints
  the farewell and ends the loop.
\<close>

theorem relay_lets_KeyboardInterrupt_through:
  "send_message interrupted_env sage ''What is climate change?'' initial_world =
     (Inl KeyboardInterrupt, sage,
      \<lparr>stdout = [],
       calls = [RelayCall ''What is climate change?'', NetworkSend ''What is climate change?'']\<rparr>)
   \<and> loop_body interrupted_env sage initial_world (Line ''What is climate change?'') =
     (TERMINATED, sage,
      \<lparr>stdout = [input_prompt, farewell],
       calls = [RelayCall ''What is climate change?'', NetworkSend ''What is climate change?'']\<rparr>)"
  by (simp add: run_defs interrupted_env_def sage_def)

text \<open>
  Claim C2, amended. For every prompt, when the remote call of the relay raises an
  \<open>Exception\<close> with message \<open>e\<close>, \<open>send_message\<close> returns the string
  \<open>An error occurred during message processing: e\<close> as its reply and the agent is
  unchanged; no \<open>Exception\<close> ever leaves \<open>send_message\<close>. A \<open>KeyboardInterrupt\<close> raised during
  the remote call is not caught: it leaves \<open>send_message\<close> and reaches the caller.
\<close>

theorem relay_converts_exceptions:
  assumes "client a = Some u" and "chat a = Some c"
  shows "(remote env (net_calls w) = Raises e \<longrightarrow>
            send_message env a prompt w =
              (Inr (Some (processing_error @ e)), a,
               log_call (NetworkSend prompt) (log_call (RelayCall prompt) w)))
       \<and> (remote env (net_calls w) = Interrupted \<longrightarrow>
            send_message env a prompt w =
              (Inl KeyboardInterrupt, a,
               log_call (NetworkSend prompt) (log_call (RelayCall prompt) w)))
       \<and> (\<forall>x. fst (send_message env a prompt w) \<noteq> Inl (Exception x))"
proof (intro conjI impI allI)
  assume "remote env (net_calls w) = Raises e"
  with assms show "send_message env a prompt w =
      (Inr (Some (processing_error @ e)), a,
       log_call (NetworkSend prompt) (log_call (RelayCall prompt) w))"
    by (simp add: send_message_def chat_send_message_def)
next
  assume "remote env (net_calls w) = Interrupted"
  with assms show "send_message env a prompt w =
      (Inl KeyboardInterrupt, a,
       log_call (NetworkSend prompt) (log_call (RelayCall prompt) w))"
    by (simp add: send_message_def chat_send_message_def)
next
  fix x
  show "fst (send_message env a prompt w) \<noteq> Inl (Exception x)"
    by (rule send_message_no_Exception)
qed

theorem relay_converts_exceptions_witness:
  "client sage = Some () \<and> chat sage = Some (chats_create default_model persona)
   \<and> remote down_env (net_calls initial_world) = Raises ''503 UNAVAILABLE''
   \<and> send_message down_env sage ''What is climate change?'' initial_world =
       (Inr (Some ''An error occurred during message processing: 503 UNAVAILABLE''), sage,
        \<lparr>stdout = [],
         calls = [RelayCall ''What is climate change?'', NetworkSend ''What is climate change?'']\<rparr>)
   \<and> remote interrupted_env (net_calls initial_world) = Interrupted
   \<and> send_message interrupted_env sage ''Hello?'' initial_world =
       (Inl KeyboardInterrupt, sage,
        \<lparr>stdout = [], calls = [RelayCall ''Hello?'', NetworkSend ''Hello?'']\<rparr>)"
proof -
  have h1: "client sage = Some ()" and h2: "chat sage = Some (chats_create default_model persona)"
    by (simp_all add: sage_def)
  have h3: "remote down_env (net_calls initial_world) = Raises ''503 UNAVAILABLE''"
    by (simp add: down_env_def)
  have h4: "remote interrupted_env (net_calls initial_world) = Interrupted"
    by (simp add: interrupted_env_def)
  from relay_converts_exceptions [OF h1 h2, of down_env initial_world "''503 UNAVAILABLE''"
      "''What is climate change?''"] h3
  have r1: "send_message down_env sage ''What is climate change?'' initial_world =
       (Inr (Some ''An error occurred during message processing: 503 UNAVAILABLE''), sage,
        \<lparr>stdout = [],
         calls = [RelayCall ''What is climate change?'', NetworkSend ''What is climate change?'']\<rparr>)"
    by (simp add: processing_error_def log_call_def initial_world_def)
  from relay_converts_exceptions [OF h1 h2, of interrupted_env initial_world _ "''Hello?''"] h4
  have r2: "send_message interrupted_env sage ''Hello?'' initial_world =
       (Inl KeyboardInterrupt, sage,
        \<lparr>stdout = [], calls = [RelayCall ''Hello?'', NetworkSend ''Hello?'']\<rparr>)"
    by (simp add: log_call_def initial_world_def)
  from h1 h2 h3 h4 r1 r2 show ?thesis
    by (intro conjI)
qed

text \<open>
  Claim C3. A turn whose first part has the attribute \<open>text\<close> with the value \<open>None\<close>,
  which is what a part without text is in the client library, passes the \<open>hasattr\<close> test
  of line 72: the printer does not raise, and it prints \<open>None\<close> for the turn, not the
  placeholder \<open>[Non-Text Content]\<close>. Evaluated on a session whose assistant turn holds
  such a part.
\<close>

theorem non_text_part_prints_None:
  "turn_text (model_turn (Some [TextAttr None])) = None \<and>
   history_line (model_turn (Some [TextAttr None])) = ''[SAGE]: None'' \<and>
   stdout (fst (run_agent_cli nontext_env [Line ''hello'', Line ''history''])) =
     [''Agent 'Sage' initialized using model: gemini-2.5-flash''] @ banner @
     [input_prompt, ''Sage: None'',
      input_prompt, history_header, ''[USER]: hello'', ''[SAGE]: None'', history_footer,
      input_prompt, ''An unexpected error occurred: EOF when reading a line'']"
  by (simp add: run_defs nontext_env_def default_model_def unexpected_error_def)

text \<open>
  Claim C4. When \<open>GEMINI_API_KEY\<close> is not in the environment, the program prints
  the two lines that report it and returns: no agent is built, no line is read, no
  relay call is made, and the exit status is 0.
\<close>

theorem missing_credential_exits_before_loop:
  assumes "environ env ''GEMINI_API_KEY'' = None"
  shows "run_agent_cli env evs = (\<lparr>stdout = critical_lines, calls = []\<rparr>, 0)"
  using assms
  by (simp add: run_agent_cli_def print_all_def critical_lines_def initial_world_def py_print_def)

theorem missing_credential_exits_before_loop_witness:
  "environ no_key_env ''GEMINI_API_KEY'' = None \<and>
   run_agent_cli no_key_env [Line ''What is climate change?'', Line ''quit''] =
     (\<lparr>stdout = critical_lines, calls = []\<rparr>, 0)"
proof -
  have h: "environ no_key_env ''GEMINI_API_KEY'' = None"
    by (simp add: no_key_env_def)
  from missing_credential_exits_before_loop [OF h] show ?thesis
    using h by simp
qed

text \<open>
  Claim C5. For every input that is \<open>quit\<close> or \<open>exit\<close> in any letter case, the
  iteration ends the loop, writes after the prompt the farewell and nothing else, and makes
  no call; the loop reads no further input.
\<close>

theorem quit_exit_terminates:
  assumes "case_variant s ''quit'' \<or> case_variant s ''exit''"
  shows "loop_body env a w (Line s) =
           (TERMINATED, a, w\<lparr>stdout := stdout w @ [input_prompt, farewell]\<rparr>)
         \<and> loop env a w (Line s # rest) = (a, w\<lparr>stdout := stdout w @ [input_prompt, farewell]\<rparr>)"
proof -
  from assms have "str_lower s = ''quit'' \<or> str_lower s = ''exit''"
    using case_variant_quit case_variant_exit by blast
  then have "loop_body env a w (Line s) =
           (TERMINATED, a, w\<lparr>stdout := stdout w @ [input_prompt, farewell]\<rparr>)"
    by (auto simp: loop_body_def py_print_def)
  then show ?thesis by simp
qed

theorem quit_exit_terminates_witness:
  "(case_variant ''QuIt'' ''quit'' \<or> case_variant ''QuIt'' ''exit'') \<and>
   loop_body working_env sage initial_world (Line ''QuIt'') =
     (TERMINATED, sage, \<lparr>stdout = [input_prompt, farewell], calls = []\<rparr>) \<and>
   loop working_env sage initial_world [Line ''QuIt'', Line ''history''] =
     (sage, \<lparr>stdout = [input_prompt, farewell], calls = []\<rparr>)"
proof -
  have "case_variant ''QuIt'' ''quit''"
    by code_simp
  then have h: "case_variant ''QuIt'' ''quit'' \<or> case_variant ''QuIt'' ''exit''"
    by simp
  from quit_exit_terminates [OF h, of working_env sage initial_world "[Line ''history'']"]
  show ?thesis
    using h by (simp add: initial_world_def)
qed

text \<open>
  Claim C6. For every input line made of whitespace characters only, the empty line
  among them, the iteration leaves the loop running with the agent unchanged, writes
  nothing but the prompt, and makes no call.
\<close>

theorem whitespace_only_is_noop:
  assumes "list_all isspace_char s"
  shows "loop_body env a w (Line s) = (RUNNING, a, w\<lparr>stdout := stdout w @ [input_prompt]\<rparr>)"
  using spaces_not_keyword [OF assms] assms
  by (simp add: loop_body_def py_print_def strip_empty)

theorem whitespace_only_is_noop_witness:
  "list_all isspace_char [CHR '' '', CHR 0x09, CHR '' ''] \<and>
   loop_body working_env sage initial_world (Line [CHR '' '', CHR 0x09, CHR '' '']) =
     (RUNNING, sage, \<lparr>stdout = [input_prompt], calls = []\<rparr>)"
proof -
  have h: "list_all isspace_char [CHR '' '', CHR 0x09, CHR '' '']"
    by (simp add: isspace_char_def)
  from whitespace_only_is_noop [OF h, of working_env sage initial_world] show ?thesis
    using h by (simp add: initial_world_def)
qed

text \<open>
  Claim C7. On an agent whose client could not be built, \<open>self.chat\<close> was never
  set: for the input \<open>history\<close> the printer is called, prints its header and raises an
  \<open>AttributeError\<close>, which the handler of the loop reports before it ends the loop. No
  relay call is made, and the loop does not stay running. Evaluated on the run of the
  program with a credential that is present and a client that cannot be built.
\<close>

theorem history_keyword_ends_disabled_session:
  "GeminiAgent_init degraded_env default_model initial_world =
     (\<lparr>client = None, chat = None, model_name = None\<rparr>,
      \<lparr>stdout = [init_error, ''Details: Missing key inputs argument!''],
       calls = [AgentInit default_model]\<rparr>) \<and>
   loop_body degraded_env \<lparr>client = None, chat = None, model_name = None\<rparr> initial_world
       (Line ''history'') =
     (TERMINATED, \<lparr>client = None, chat = None, model_name = None\<rparr>,
      \<lparr>stdout = [input_prompt, history_header, unexpected_error @ no_chat_attribute],
       calls = [HistoryPrint]\<rparr>) \<and>
   run_agent_cli degraded_env [Line ''history'', Line ''What is climate change?''] =
     (\<lparr>stdout = [init_error, ''Details: Missing key inputs argument!''] @ banner @
         [input_prompt, history_header, unexpected_error @ no_chat_attribute],
       calls = [AgentInit default_model, HistoryPrint]\<rparr>, 0)"
  by (simp add: run_defs degraded_env_def)

text \<open>
  Claim C8. On a freshly built agent, after relay calls for the prompts \<open>ps\<close> of which
  \<open>N\<close> were answered by the remote, the history of the session is, in order, the USER
  turn and the ASSISTANT turn of each answered call: \<open>N\<close> times the roles \<open>user\<close>,
  \<open>model\<close>. The printer returns and prints between its header and footer one line for
  each turn, in that order, labelled \<open>USER\<close> and \<open>SAGE\<close> in turn.
\<close>

theorem history_after_successful_relays:
  assumes "client_ctor env = None"
    and "GeminiAgent_init env m initial_world = (a0, w0)"
    and "relay_all env a0 w0 ps = (rs, a, w)"
  shows "\<exists>c w'. chat a = Some c
      \<and> history c = turns_added env 0 ps
      \<and> map role (history c) =
          concat (replicate (successes env 0 (length ps)) [Some ''user'', Some ''model''])
      \<and> get_history a w = (None, w')
      \<and> stdout w' = stdout w @ [history_header] @ map history_line (history c) @ [history_footer]
      \<and> map (take 8) (map history_line (history c)) =
          concat (replicate (successes env 0 (length ps)) [''[USER]: '', ''[SAGE]: ''])"
proof -
  let ?c0 = "chats_create m persona"
  from assms(1,2) have a0: "client a0 = Some ()" "chat a0 = Some ?c0"
    and n0: "net_calls w0 = 0"
    by (auto simp: GeminiAgent_init_def initial_world_def net_calls_def log_call_def py_print_def)
  from relay_all_history [OF a0, of env w0 ps] assms(3)
  have "chat a = Some (?c0\<lparr>history := history ?c0 @ turns_added env (net_calls w0) ps\<rparr>)"
    by auto
  then have ch: "chat a = Some (?c0\<lparr>history := turns_added env 0 ps\<rparr>)"
    by (simp add: n0 chats_create_def)
  let ?c = "?c0\<lparr>history := turns_added env 0 ps\<rparr>"
  from get_history_enabled [OF ch, of w] obtain w' where
    gh: "get_history a w = (None, w')"
    and out: "stdout w' =
      stdout w @ [history_header] @ map history_line (history ?c) @ [history_footer]"
    by blast
  have hist: "history ?c = turns_added env 0 ps"
    by simp
  have roles: "map role (history ?c) =
      concat (replicate (successes env 0 (length ps)) [Some ''user'', Some ''model''])"
    unfolding hist by (rule roles_turns_added)
  have labels: "map (take 8) (map history_line (history ?c)) =
      concat (replicate (successes env 0 (length ps)) [''[USER]: '', ''[SAGE]: ''])"
    unfolding hist by (rule labels_turns_added)
  from ch hist roles gh out labels show ?thesis
    by blast
qed

theorem history_after_successful_relays_witness:
  "client_ctor flaky_env = None \<and>
   (case GeminiAgent_init flaky_env default_model initial_world of
      (a0, w0) \<Rightarrow>
        (case relay_all flaky_env a0 w0 [''one'', ''two'', ''three''] of
           (rs, a, w) \<Rightarrow>
             map_option history (chat a) =
               Some [user_turn ''one'', model_turn (Some [TextAttr (Some ''ok'')]),
                     user_turn ''three'', model_turn (Some [TextAttr (Some ''ok'')])]
           \<and> map_option (map role \<circ> history) (chat a) =
               Some [Some ''user'', Some ''model'', Some ''user'', Some ''model'']
           \<and> fst (get_history a w) = None
           \<and> stdout (snd (get_history a w)) = stdout w @
               [history_header, ''[USER]: one'', ''[SAGE]: ok'', ''[USER]: three'',
                ''[SAGE]: ok'', history_footer]))"
proof -
  have h: "client_ctor flaky_env = None"
    by (simp add: flaky_env_def)
  obtain a0 w0 where i: "GeminiAgent_init flaky_env default_model initial_world = (a0, w0)"
    by (cases "GeminiAgent_init flaky_env default_model initial_world")
  obtain rs a w where r: "relay_all flaky_env a0 w0 [''one'', ''two'', ''three''] = (rs, a, w)"
    by (cases "relay_all flaky_env a0 w0 [''one'', ''two'', ''three'']")
  have t: "turns_added flaky_env 0 [''one'', ''two'', ''three''] =
        [user_turn ''one'', model_turn (Some [TextAttr (Some ''ok'')]),
         user_turn ''three'', model_turn (Some [TextAttr (Some ''ok'')])]"
    by (simp add: flaky_env_def)
  have s: "successes flaky_env 0 (length [''one'', ''two'', ''three'']) = 2"
    by (simp add: successes_def flaky_env_def upt_conv_Cons del: upt_Suc)
  from history_after_successful_relays [OF h i r] obtain c w' where
    "chat a = Some c" "history c = turns_added flaky_env 0 [''one'', ''two'', ''three'']"
    "map role (history c) =
       concat (replicate (successes flaky_env 0 (length [''one'', ''two'', ''three'']))
         [Some ''user'', Some ''model''])"
    "get_history a w = (None, w')"
    "stdout w' = stdout w @ [history_header] @ map history_line (history c) @ [history_footer]"
    by blast
  then have "chat a = Some c" "history c =
        [user_turn ''one'', model_turn (Some [TextAttr (Some ''ok'')]),
         user_turn ''three'', model_turn (Some [TextAttr (Some ''ok'')])]"
    "map role (history c) = concat (replicate 2 [Some ''user'', Some ''model''])"
    "get_history a w = (None, w')"
    "stdout w' = stdout w @ [history_header] @ map history_line (history c) @ [history_footer]"
    unfolding t s by blast+
  then have "map_option history (chat a) =
               Some [user_turn ''one'', model_turn (Some [TextAttr (Some ''ok'')]),
                     user_turn ''three'', model_turn (Some [TextAttr (Some ''ok'')])]
           \<and> map_option (map role \<circ> history) (chat a) =
               Some [Some ''user'', Some ''model'', Some ''user'', Some ''model'']
           \<and> fst (get_history a w) = None
           \<and> stdout (snd (get_history a w)) = stdout w @
               [history_header, ''[USER]: one'', ''[SAGE]: ok'', ''[USER]: three'',
                ''[SAGE]: ok'', history_footer]"
    by (simp add: numeral_2_eq_2 history_line_def turn_label_def turn_text_def fmt_def
          user_turn_def model_turn_def)
  with h show ?thesis
    by (simp add: i r del: relay_all.simps)
qed

text \<open>
  Claim C9. On an agent with a chat session the printer returns, and prints between
  header and footer one line for each turn, which starts with \<open>[USER]: \<close> when the role
  of the turn is the string \<open>user\<close> and with \<open>[SAGE]: \<close> for every other role, \<open>None\<close>
  included.
\<close>

theorem history_labels:
  assumes "chat a = Some c"
  shows "\<exists>w'. get_history a w = (None, w')
      \<and> stdout w' = stdout w @ [history_header] @ map history_line (history c) @ [history_footer]
      \<and> map (take 8) (map history_line (history c)) =
          map (\<lambda>t. if role t = Some ''user'' then ''[USER]: '' else ''[SAGE]: '') (history c)"
  using get_history_enabled [OF assms, of w]
  by (auto simp: history_line_prefix)

theorem history_labels_witness:
  "chat (sage\<lparr>chat := Some (chats_create default_model persona\<lparr>history := mixed_history\<rparr>)\<rparr>) =
     Some (chats_create default_model persona\<lparr>history := mixed_history\<rparr>) \<and>
   (\<exists>w'. get_history
            (sage\<lparr>chat := Some (chats_create default_model persona\<lparr>history := mixed_history\<rparr>)\<rparr>)
            initial_world = (None, w')
      \<and> stdout w' =
          [history_header, ''[USER]: hi'', ''[SAGE]: hello'', ''[SAGE]: [Non-Text Content]'',
           ''[SAGE]: [Non-Text Content]'', ''[SAGE]: [Non-Text Content]'', history_footer])"
proof -
  let ?c = "chats_create default_model persona\<lparr>history := mixed_history\<rparr>"
  let ?a = "sage\<lparr>chat := Some ?c\<rparr>"
  have h: "chat ?a = Some ?c"
    by simp
  from history_labels [OF h, of initial_world] obtain w' where
    "get_history ?a initial_world = (None, w')"
    "stdout w' = stdout initial_world @ [history_header] @ map history_line (history ?c)
        @ [history_footer]"
    by blast
  then show ?thesis
    by (simp add: initial_world_def mixed_history_def history_line_def turn_label_def
          turn_text_def fmt_def user_turn_def model_turn_def placeholder_def)
qed

text \<open>
  Claim C10. For every input that is \<open>quit\<close>, \<open>exit\<close> or \<open>history\<close> in any letter
  case with whitespace before or after it, at least one character in all, the iteration
  calls the relay with the input as it was typed; when the relay returns, which it does
  unless the user interrupts the remote call, the reply is printed after \<open>Sage: \<close> and
  the loop is left running.
\<close>

theorem padded_keyword_is_relayed:
  assumes kw: "case_variant k ''quit'' \<or> case_variant k ''exit'' \<or> case_variant k ''history''"
    and pre: "list_all isspace_char pre" and post: "list_all isspace_char post"
    and pad: "pre @ post \<noteq> []"
  shows "\<exists>r a' w' rest.
           send_message env a (pre @ k @ post) (py_print input_prompt w) = (r, a', w')
         \<and> calls w' = calls w @ RelayCall (pre @ k @ post) # rest
         \<and> loop_body env a w (Line (pre @ k @ post)) =
             (case r of
                Inr response \<Rightarrow> (RUNNING, a', py_print (''Sage: '' @ fmt response) w')
              | Inl x \<Rightarrow> (TERMINATED, a', py_print farewell w'))
         \<and> (remote env (net_calls w) \<noteq> Interrupted \<longrightarrow> (\<exists>response. r = Inr response))"
proof -
  let ?s = "pre @ k @ post"
  have low: "str_lower ?s = pre @ str_lower k @ post"
    by (simp add: lower_append lower_spaces [OF pre] lower_spaces [OF post])
  have not_quit: "str_lower ?s \<noteq> ''quit''"
    unfolding low by (rule padded_not_plain [OF pre post pad]) (simp add: keyword_chars)
  have not_exit: "str_lower ?s \<noteq> ''exit''"
    unfolding low by (rule padded_not_plain [OF pre post pad]) (simp add: keyword_chars)
  have not_history: "str_lower ?s \<noteq> ''history''"
    unfolding low by (rule padded_not_plain [OF pre post pad]) (simp add: keyword_chars)
  have "\<not> list_all isspace_char k"
    using kw spaces_not_keyword [of k] case_variant_quit case_variant_exit case_variant_history
    by blast
  then have not_blank: "str_strip ?s \<noteq> []"
    by (simp add: strip_empty)
  obtain r a' w' rest where
    sm: "send_message env a ?s (py_print input_prompt w) = (r, a', w')"
    and cs: "calls w' = calls (py_print input_prompt w) @ RelayCall ?s # rest"
    using send_message_calls [of env a ?s "py_print input_prompt w"] by blast
  have no_exc: "r \<noteq> Inl (Exception e)" for e
    using send_message_no_Exception [of env a ?s "py_print input_prompt w" e] sm by simp
  have only: "r = Inl KeyboardInterrupt \<Longrightarrow> remote env (net_calls w) = Interrupted"
    using send_message_interrupt_only [of env a ?s "py_print input_prompt w"] sm by simp
  have lb: "loop_body env a w (Line ?s) =
      (case r of
         Inr response \<Rightarrow> (RUNNING, a', py_print (''Sage: '' @ fmt response) w')
       | Inl x \<Rightarrow> (TERMINATED, a', py_print farewell w'))"
  proof (cases r)
    case (Inr response)
    then show ?thesis
      using not_quit not_exit not_history not_blank sm by (simp add: loop_body_def)
  next
    case (Inl x)
    with no_exc have "x = KeyboardInterrupt"
      by (cases x) auto
    with Inl show ?thesis
      using not_quit not_exit not_history not_blank sm by (simp add: loop_body_def)
  qed
  have ret: "remote env (net_calls w) \<noteq> Interrupted \<longrightarrow> (\<exists>response. r = Inr response)"
  proof
    assume ni: "remote env (net_calls w) \<noteq> Interrupted"
    show "\<exists>response. r = Inr response"
    proof (cases r)
      case (Inr response)
      then show ?thesis by blast
    next
      case (Inl x)
      with no_exc have "x = KeyboardInterrupt"
        by (cases x) auto
      with Inl only ni show ?thesis by blast
    qed
  qed
  from cs have cs': "calls w' = calls w @ RelayCall ?s # rest"
    by (simp add: py_print_def)
  from sm cs' lb ret show ?thesis
    by blast
qed

theorem padded_keyword_is_relayed_witness:
  "(case_variant ''Quit'' ''quit'' \<or> case_variant ''Quit'' ''exit''
      \<or> case_variant ''Quit'' ''history'')
   \<and> list_all isspace_char '' '' \<and> list_all isspace_char [] \<and> '' '' @ [] \<noteq> []
   \<and> loop_body working_env sage initial_world (Line ('' '' @ ''Quit'' @ [])) =
       (RUNNING,
        sage\<lparr>chat := Some (chats_create default_model persona
                 \<lparr>history := [user_turn '' Quit'', model_turn (Some [TextAttr (Some ''ok'')])]\<rparr>)\<rparr>,
        \<lparr>stdout = [input_prompt, ''Sage: ok''],
         calls = [RelayCall '' Quit'', NetworkSend '' Quit'']\<rparr>)"
proof -
  have "case_variant ''Quit'' ''quit''"
    by code_simp
  then have h1: "case_variant ''Quit'' ''quit'' \<or> case_variant ''Quit'' ''exit''
      \<or> case_variant ''Quit'' ''history''"
    by simp
  have h2: "list_all isspace_char '' ''" and h3: "list_all isspace_char []"
    and h4: "'' '' @ [] \<noteq> []"
    by (simp_all add: isspace_char_def)
  have sm: "send_message working_env sage ('' '' @ ''Quit'' @ []) (py_print input_prompt initial_world) =
      (Inr (Some ''ok''),
       sage\<lparr>chat := Some (chats_create default_model persona
                 \<lparr>history := [user_turn '' Quit'', model_turn (Some [TextAttr (Some ''ok'')])]\<rparr>)\<rparr>,
       \<lparr>stdout = [input_prompt], calls = [RelayCall '' Quit'', NetworkSend '' Quit'']\<rparr>)"
    by (simp add: send_message_def sage_def working_env_def chat_send_message_def chats_create_def
          log_call_def py_print_def initial_world_def net_calls_def)
  from padded_keyword_is_relayed [OF h1 h2 h3 h4, of working_env sage initial_world]
  obtain r a' w' where
    e1: "send_message working_env sage ('' '' @ ''Quit'' @ []) (py_print input_prompt initial_world) =
          (r, a', w')"
    and e2: "loop_body working_env sage initial_world (Line ('' '' @ ''Quit'' @ [])) =
          (case r of
             Inr response \<Rightarrow> (RUNNING, a', py_print (''Sage: '' @ fmt response) w')
           | Inl x \<Rightarrow> (TERMINATED, a', py_print farewell w'))"
    by blast
  from e1 have "r = Inr (Some ''ok'')"
    and "a' = sage\<lparr>chat := Some (chats_create default_model persona
                 \<lparr>history := [user_turn '' Quit'', model_turn (Some [TextAttr (Some ''ok'')])]\<rparr>)\<rparr>"
    and "w' = \<lparr>stdout = [input_prompt], calls = [RelayCall '' Quit'', NetworkSend '' Quit'']\<rparr>"
    unfolding sm by auto
  with e2 have "loop_body working_env sage initial_world (Line ('' '' @ ''Quit'' @ [])) =
       (RUNNING,
        sage\<lparr>chat := Some (chats_create default_model persona
                 \<lparr>history := [user_turn '' Quit'', model_turn (Some [TextAttr (Some ''ok'')])]\<rparr>)\<rparr>,
        \<lparr>stdout = [input_prompt, ''Sage: ok''],
         calls = [RelayCall '' Quit'', NetworkSend '' Quit'']\<rparr>)"
    by (simp add: py_print_def fmt_def)
  with h1 h2 h3 h4 show ?thesis
    by blast
qed

end
